theory Spec2Isabelle
  imports Complex_Main "HOL-Library.Monad_Syntax"
begin

section \<open>Python values\<close>

text \<open>
  A Python \<open>str\<close> is a sequence of Unicode code points and \<open>len\<close> counts code points,
  so a string is modelled as a list of code points. \<open>py\<close> turns a literal into such a list
  (code points below 256); other code points are written as numbers.
\<close>

type_synonym pystr = "nat list"

abbreviation py :: "string \<Rightarrow> pystr" where
  "py s \<equiv> map of_char s"

text \<open>The exceptions that the modelled code raises or lets through.\<close>

datatype py_error = NoSuchProcess | AccessDenied | OSError | ValueError | RuntimeError
  | FileNotFoundError

text \<open>
  Whitespace as \<open>str.strip\<close>, \<open>str.split\<close> and the regular expression class
  \<open>\s\<close> see it on a \<open>str\<close>: the code points for which Python's
  \<open>str.isspace\<close> holds.
\<close>

definition is_space :: "nat \<Rightarrow> bool" where
  "is_space c \<longleftrightarrow>
     (9 \<le> c \<and> c \<le> 13) \<or> (28 \<le> c \<and> c \<le> 32) \<or> c = 133 \<or> c = 160 \<or> c = 5760
     \<or> (8192 \<le> c \<and> c \<le> 8202) \<or> c = 8232 \<or> c = 8233 \<or> c = 8239 \<or> c = 8287
     \<or> c = 12288"

text \<open>\<open>s.strip()\<close>\<close>

definition strip :: "pystr \<Rightarrow> pystr" where
  "strip s = rev (dropWhile is_space (rev (dropWhile is_space s)))"

text \<open>\<open>s.split(sep)\<close> for a separator of one character: never an empty list.\<close>

fun split_on :: "nat \<Rightarrow> pystr \<Rightarrow> pystr list" where
  "split_on sep [] = [[]]"
| "split_on sep (c # cs) =
     (if c = sep then [] # split_on sep cs
      else (case split_on sep cs of [] \<Rightarrow> [[c]] | p # ps \<Rightarrow> (c # p) # ps))"

text \<open>\<open>s.split()\<close>: the maximal runs of characters that are not whitespace.\<close>

function py_split :: "pystr \<Rightarrow> pystr list" where
  "py_split [] = []"
| "py_split (c # cs) =
     (if is_space c then py_split cs
      else (c # takeWhile (\<lambda>x. \<not> is_space x) cs)
             # py_split (dropWhile (\<lambda>x. \<not> is_space x) cs))"
  by pat_completeness auto
termination
  by (relation "measure length") (auto simp: length_dropWhile_le less_Suc_eq_le)

text \<open>\<open>sep.join(xs)\<close>\<close>

fun py_join :: "pystr \<Rightarrow> pystr list \<Rightarrow> pystr" where
  "py_join sep [] = []"
| "py_join sep [x] = x"
| "py_join sep (x # y # ys) = x @ sep @ py_join sep (y # ys)"

text \<open>
  \<open>xs[i:j]\<close>: a negative index counts from the end, and both indices are clamped to
  the list.
\<close>

definition py_slice :: "'a list \<Rightarrow> int \<Rightarrow> int \<Rightarrow> 'a list" where
  "py_slice xs i j =
     (let n = int (length xs);
          a = (if i < 0 then max 0 (i + n) else min i n);
          b = (if j < 0 then max 0 (j + n) else min j n)
      in take (nat (b - a)) (drop (nat a) xs))"

section \<open>memory\_optimizer.py\<close>

text \<open>
  The readings of \<open>psutil\<close> are inputs of the model. Each of the three calls made by
  \<open>get_memory_usage\<close> either raises or returns: \<open>psutil.Process()\<close>,
  \<open>psutil.virtual_memory()\<close> and \<open>process.memory_info()\<close>. Python floats are
  modelled as reals, so rounding is not part of the model.
\<close>

record svmem =
  vm_total :: nat
  vm_available :: nat
  vm_percent :: real

record psutil_env =
  process_open :: "py_error + unit"
  virtual_memory :: "py_error + svmem"
  memory_info_rss :: "py_error + nat"

record memory_usage =
  process_memory_mb :: real
  system_memory_percent :: real
  system_available_mb :: real
  system_total_mb :: real

definition get_memory_usage :: "psutil_env \<Rightarrow> py_error + memory_usage" where
  "get_memory_usage env =
     (case process_open env of
        Inl e \<Rightarrow> Inl e
      | Inr process \<Rightarrow>
         (case virtual_memory env of
            Inl e \<Rightarrow> Inl e
          | Inr system_memory \<Rightarrow>
             (case memory_info_rss env of
                Inl e \<Rightarrow> Inl e
              | Inr rss \<Rightarrow>
                 Inr \<lparr> process_memory_mb = real rss / 1024 / 1024,
                       system_memory_percent = vm_percent system_memory,
                       system_available_mb = real (vm_available system_memory) / 1024 / 1024,
                       system_total_mb = real (vm_total system_memory) / 1024 / 1024 \<rparr>)))"

text \<open>The snapshot with every field zero, which the code never builds.\<close>

definition zeroed_usage :: memory_usage where
  "zeroed_usage = \<lparr> process_memory_mb = 0, system_memory_percent = 0,
                     system_available_mb = 0, system_total_mb = 0 \<rparr>"

text \<open>
  \<open>check_memory_limit\<close>: \<open>max_memory_gb\<close> is the configured ceiling (3.5 by default).
\<close>

definition check_memory_limit :: "real \<Rightarrow> psutil_env \<Rightarrow> py_error + bool" where
  "check_memory_limit max_memory_gb env =
     (case get_memory_usage env of
        Inl e \<Rightarrow> Inl e
      | Inr memory_info \<Rightarrow>
          if process_memory_mb memory_info > max_memory_gb * 1024 * 0.9 then Inr False
          else if system_memory_percent memory_info > 90 then Inr False
          else Inr True)"

text \<open>
  \<open>get_optimal_chunk_size\<close>: the branches in the order of the source. \<open>//\<close> is floor
  division, which \<open>div\<close> on \<open>int\<close> is. \<open>document_length\<close> is not used by the source.
\<close>

definition get_optimal_chunk_size :: "psutil_env \<Rightarrow> int \<Rightarrow> int \<Rightarrow> py_error + int" where
  "get_optimal_chunk_size env document_length base_chunk_size =
     (case get_memory_usage env of
        Inl e \<Rightarrow> Inl e
      | Inr memory_info \<Rightarrow>
          if system_memory_percent memory_info > 80 then Inr (base_chunk_size div 2)
          else if system_memory_percent memory_info > 90 then Inr (base_chunk_size div 4)
          else Inr base_chunk_size)"

definition get_optimal_batch_size :: "psutil_env \<Rightarrow> int \<Rightarrow> py_error + int" where
  "get_optimal_batch_size env base_batch_size =
     (case get_memory_usage env of
        Inl e \<Rightarrow> Inl e
      | Inr memory_info \<Rightarrow>
          (let available_memory_gb = system_available_mb memory_info / 1024 in
           if available_memory_gb < 1 then Inr 1
           else if available_memory_gb < 2 then Inr (max 1 (base_batch_size div 2))
           else Inr base_batch_size))"

section \<open>pdf\_processor.py\<close>




section \<open>question\_generator.py: grading\<close>

text \<open>
  An exam item is the dictionary with the keys \<open>question\<close>, \<open>options\<close> and
  \<open>answer\<close>; the grading result is the dictionary with the keys \<open>score\<close>,
  \<open>correct\<close>, \<open>total\<close> and \<open>details\<close>. The score is a Python float, here a real.
\<close>

record exam_item =
  item_question :: pystr
  item_options :: "pystr list"
  item_answer :: pystr

record grade_detail =
  det_question :: pystr
  det_selected :: pystr
  det_correct_answer :: pystr
  det_is_correct :: bool

record grade_result =
  res_score :: real
  res_correct :: nat
  res_total :: nat
  res_details :: "grade_detail list"

text \<open>The loop over \<open>zip(exam, user_answers)\<close>, with its two accumulators.\<close>

fun grade_loop ::
  "(exam_item \<times> pystr) list \<Rightarrow> nat \<Rightarrow> grade_detail list \<Rightarrow> nat \<times> grade_detail list" where
  "grade_loop [] correct details = (correct, details)"
| "grade_loop ((q, user_ans) # rest) correct details =
     (let is_correct = (user_ans = item_answer q)
      in grade_loop rest
           (if is_correct then correct + 1 else correct)
           (details @ [\<lparr> det_question = item_question q, det_selected = user_ans,
                          det_correct_answer = item_answer q, det_is_correct = is_correct \<rparr>]))"

definition grade_multiple_choice_exam :: "exam_item list \<Rightarrow> pystr list \<Rightarrow> grade_result" where
  "grade_multiple_choice_exam exam user_answers =
     (case grade_loop (zip exam user_answers) 0 [] of
        (correct, details) \<Rightarrow>
          (let total = length exam;
               score = (if total > 0 then real correct / real total * 100 else 0)
           in \<lparr> res_score = score, res_correct = correct, res_total = total,
                res_details = details \<rparr>))"

text \<open>An exam of two items, for the evaluations below.\<close>

definition ex_exam :: "exam_item list" where
  "ex_exam =
     [\<lparr> item_question = py ''Q1?'', item_options = [py ''a'', py ''b''],
        item_answer = py ''a'' \<rparr>,
      \<lparr> item_question = py ''Q2?'', item_options = [py ''c'', py ''d''],
        item_answer = py ''d'' \<rparr>]"

section \<open>pdf\_processor.py: chunking and streaming\<close>

text \<open>
  \<open>create_text_chunks\<close>. One iteration of the \<open>while\<close> loop computes a window
  \<open>words[start_idx:end_idx]\<close> and its text, yields the text when its trimmed length
  exceeds 50, and either stops (the window reached the end of the word list) or moves
  \<open>start_idx\<close> to \<open>end_idx - overlap\<close>. The model records every window the loop
  computes, with the flag \<open>w_yielded\<close> for those the generator yields. The loop need not
  terminate, so its result is an option: \<open>None\<close> is the run that never ends.
\<close>

record window =
  w_start :: int
  w_end :: int
  w_text :: pystr
  w_yielded :: bool

partial_function (option) chunk_loop ::
  "int \<Rightarrow> int \<Rightarrow> pystr list \<Rightarrow> int \<Rightarrow> window list option" where
  "chunk_loop optimal_chunk_size overlap words start_idx =
     (if start_idx < int (length words) then
        (let end_idx = min (start_idx + optimal_chunk_size) (int (length words));
             chunk_text = py_join [32] (py_slice words start_idx end_idx);
             w = \<lparr> w_start = start_idx, w_end = end_idx, w_text = chunk_text,
                   w_yielded = (length (strip chunk_text) > 50) \<rparr>
         in if end_idx \<ge> int (length words) then Some [w]
            else do { rest \<leftarrow> chunk_loop optimal_chunk_size overlap words (end_idx - overlap);
                      Some (w # rest) })
      else Some [])"

text \<open>
  The chunks of a text are the texts of the yielded windows, in order; the window size is
  the one recommended by the Memory Monitor for the configured \<open>chunk_size\<close>. The result
  is what a consumer that drains the generator sees.
\<close>

definition create_text_chunks ::
  "psutil_env \<Rightarrow> int \<Rightarrow> int \<Rightarrow> pystr \<Rightarrow> (py_error + pystr list) option" where
  "create_text_chunks env chunk_size overlap text0 =
     (case get_optimal_chunk_size env (int (length text0)) chunk_size of
        Inl e \<Rightarrow> Some (Inl e)
      | Inr optimal_chunk_size \<Rightarrow>
          do { ws \<leftarrow> chunk_loop optimal_chunk_size overlap (py_split text0) 0;
               Some (Inr (map w_text (filter w_yielded ws))) })"



text \<open>
  \<open>process_pdf_streaming\<close>. The metadata (which \<open>get_pdf_metadata\<close> always returns)
  and the outcome of \<open>extract_text_from_pdf\<close> are inputs. The loop is the trace of a
  drained generator: each record yielded and, after it, the call of
  \<open>memory_optimizer.cleanup_memory()\<close> when the source makes it.
\<close>

record 'm chunk_record =
  chunk_id :: nat
  rec_text :: pystr
  rec_metadata :: 'm
  chunk_length :: nat

datatype 'm stream_event = Yield "'m chunk_record" | Cleanup

fun stream_loop :: "'m \<Rightarrow> nat \<Rightarrow> pystr list \<Rightarrow> 'm stream_event list" where
  "stream_loop metadata i [] = []"
| "stream_loop metadata i (chunk # rest) =
     Yield \<lparr> chunk_id = i, rec_text = chunk, rec_metadata = metadata,
             chunk_length = length chunk \<rparr>
       # (if i mod 5 = 0 then [Cleanup] else [])
       @ stream_loop metadata (i + 1) rest"

definition process_pdf_streaming ::
  "psutil_env \<Rightarrow> int \<Rightarrow> int \<Rightarrow> 'm \<Rightarrow> py_error + pystr
     \<Rightarrow> (py_error + 'm stream_event list) option" where
  "process_pdf_streaming env chunk_size overlap metadata extracted =
     (case extracted of
        Inl e \<Rightarrow> Some (Inl e)
      | Inr full_text \<Rightarrow>
         (case create_text_chunks env chunk_size overlap full_text of
            None \<Rightarrow> None
          | Some (Inl e) \<Rightarrow> Some (Inl e)
          | Some (Inr chunks) \<Rightarrow> Some (Inr (stream_loop metadata 0 chunks))))"

text \<open>
  For each \<open>Cleanup\<close> of a trace, the number of records yielded before it, counting
  from \<open>n\<close>; and the \<open>chunk_id\<close>s of the records of a trace.
\<close>

fun cleanup_positions :: "nat \<Rightarrow> 'm stream_event list \<Rightarrow> nat list" where
  "cleanup_positions n [] = []"
| "cleanup_positions n (Yield r # es) = cleanup_positions (Suc n) es"
| "cleanup_positions n (Cleanup # es) = n # cleanup_positions n es"

fun yielded_ids :: "'m stream_event list \<Rightarrow> nat list" where
  "yielded_ids [] = []"
| "yielded_ids (Yield r # es) = chunk_id r # yielded_ids es"
| "yielded_ids (Cleanup # es) = yielded_ids es"


section \<open>question\_generator.py: generating questions\<close>

text \<open>\<open>s.startswith(p)\<close>\<close>

definition startswith :: "pystr \<Rightarrow> pystr \<Rightarrow> bool" where
  "startswith s p \<longleftrightarrow> take (length p) s = p"

text \<open>
  \<open>re.split(r'(?<=[.!?])\s+', text)\<close>: the text is cut at every maximal run of
  whitespace that directly follows a full stop, an exclamation mark or a question mark;
  the run is dropped.
\<close>

function re_split_sentences :: "pystr \<Rightarrow> pystr list" where
  "re_split_sentences [] = [[]]"
| "re_split_sentences (c # cs) =
     (if (c = 46 \<or> c = 33 \<or> c = 63) \<and> cs \<noteq> [] \<and> is_space (hd cs)
      then [c] # re_split_sentences (dropWhile is_space cs)
      else (case re_split_sentences cs of [] \<Rightarrow> [[c]] | p # ps \<Rightarrow> (c # p) # ps))"
  by pat_completeness auto
termination
  by (relation "measure length") (auto simp: length_dropWhile_le less_Suc_eq_le)

text \<open>
  A question is the dictionary with the keys \<open>question\<close>, \<open>type\<close> and \<open>model\<close>.
  The language of the validation follows the model name.
\<close>

record question =
  q_question :: pystr
  q_type :: pystr
  q_model :: pystr

datatype lang = ES | EN

text \<open>
  What the generator object holds. The text-generation pipeline is an external model:
  called on a prompt it raises or returns the \<open>generated_text\<close> of each returned
  sequence. \<open>pipeline\<close> is \<open>self.pipeline\<close> (\<open>None\<close> before loading) and
  \<open>load_model\<close> is the pipeline that \<open>load_model()\<close> installs, \<open>None\<close> when loading
  fails. \<open>str.lower\<close> and \<open>str.isupper\<close> follow the Unicode tables and are parameters.
\<close>

record generator =
  model_name :: pystr
  pipeline :: "(pystr \<Rightarrow> py_error + pystr list) option"
  load_model :: "(pystr \<Rightarrow> py_error + pystr list) option"
  py_lower :: "pystr \<Rightarrow> pystr"
  py_isupper :: "nat \<Rightarrow> bool"

text \<open>
  The two validations of a generated string; \<open>63\<close> is \<open>?\<close>, \<open>191\<close> and \<open>161\<close> are
  the inverted question and exclamation marks.
\<close>

definition valid_question :: "generator \<Rightarrow> lang \<Rightarrow> pystr set \<Rightarrow> pystr \<Rightarrow> bool" where
  "valid_question g lng used question =
     (case lng of
        EN \<Rightarrow>
          question \<noteq> [] \<and> question \<notin> used \<and> length question > 10 \<and> length question < 200
          \<and> 63 \<in> set question
          \<and> py_isupper g (hd question)
          \<and> \<not> (191 \<in> set question \<or> 161 \<in> set question)
          \<and> \<not> startswith (py_lower g question) (py ''context:'')
          \<and> \<not> startswith (py_lower g question) (py ''answer:'')
      | ES \<Rightarrow>
          question \<noteq> [] \<and> question \<notin> used \<and> length question > 10 \<and> length question < 200
          \<and> (191 \<in> set question \<or> 63 \<in> set question)
          \<and> \<not> startswith (py_lower g question) (py ''what'')
          \<and> \<not> startswith (py_lower g question) (py ''who'')
          \<and> \<not> startswith (py_lower g question) (py ''when'')
          \<and> \<not> startswith (py_lower g question) (py ''where'')
          \<and> \<not> startswith (py_lower g question) (py ''why'')
          \<and> \<not> startswith (py_lower g question) (py ''how''))"

text \<open>The loop \<open>for r in result\<close>: every valid string is appended; nothing is counted.\<close>

fun accept_results ::
  "generator \<Rightarrow> lang \<Rightarrow> pystr list \<Rightarrow> question list \<times> pystr set \<Rightarrow> question list \<times> pystr set" where
  "accept_results g lng [] (questions, used) = (questions, used)"
| "accept_results g lng (r # rs) (questions, used) =
     (let question = strip r
      in if valid_question g lng used question
         then accept_results g lng rs
                (questions @ [\<lparr> q_question = question, q_type = py ''QG'',
                                 q_model = model_name g \<rparr>],
                 insert question used)
         else accept_results g lng rs (questions, used))"

text \<open>
  The loop \<open>for sent in sentences\<close>. A sentence shorter than 30 characters is skipped;
  the requested count is tested before the pipeline is called on a sentence; an exception
  of the pipeline is logged and the sentence contributes nothing.
\<close>

fun sentence_loop ::
  "generator \<Rightarrow> (pystr \<Rightarrow> py_error + pystr list) \<Rightarrow> int \<Rightarrow> pystr list
     \<Rightarrow> question list \<times> pystr set \<Rightarrow> question list" where
  "sentence_loop g pipe num_questions [] (questions, used) = questions"
| "sentence_loop g pipe num_questions (sent0 # rest) (questions, used) =
     (let sent = strip sent0
      in if length sent < 30 then sentence_loop g pipe num_questions rest (questions, used)
         else if int (length questions) \<ge> num_questions then questions
         else
           (let lng = (if startswith (model_name g) (py ''mrm8488'') then ES else EN);
                prompt = (if startswith (model_name g) (py ''mrm8488'')
                          then py ''contexto: '' @ sent @ py '' respuesta: '' @ sent
                          else py ''generate question: '' @ sent @ py '' answer: '' @ sent)
            in case pipe prompt of
                 Inl e \<Rightarrow> sentence_loop g pipe num_questions rest (questions, used)
               | Inr result \<Rightarrow>
                   sentence_loop g pipe num_questions rest
                     (accept_results g lng result (questions, used))))"

definition generate_questions_from_text ::
  "generator \<Rightarrow> pystr \<Rightarrow> int \<Rightarrow> py_error + question list" where
  "generate_questions_from_text g text0 num_questions =
     (case (case pipeline g of Some p \<Rightarrow> Some p | None \<Rightarrow> load_model g) of
        None \<Rightarrow> Inl RuntimeError
      | Some pipe \<Rightarrow>
          Inr (sentence_loop g pipe num_questions (re_split_sentences text0) ([], {})))"

section \<open>question\_generator.py: building an exam\<close>

text \<open>
  The random source is a sequence of draws \<open>rnd\<close> and the number \<open>i\<close> of draws used
  so far. \<open>random.sample(population, k)\<close> picks \<open>k\<close> elements at distinct positions,
  and raises \<open>ValueError\<close> when \<open>k\<close> is negative or exceeds the population;
  \<open>random.shuffle\<close> picks all of them. Every outcome of Python's functions is the
  outcome of some sequence of draws.
\<close>

fun sample_from :: "(nat \<Rightarrow> nat) \<Rightarrow> nat \<Rightarrow> 'a list \<Rightarrow> nat \<Rightarrow> 'a list" where
  "sample_from rnd i pool 0 = []"
| "sample_from rnd i pool (Suc k) =
     (if pool = [] then []
      else (let j = rnd i mod length pool
            in pool ! j # sample_from rnd (Suc i) (take j pool @ drop (Suc j) pool) k))"

definition random_sample ::
  "(nat \<Rightarrow> nat) \<Rightarrow> nat \<Rightarrow> 'a list \<Rightarrow> int \<Rightarrow> py_error + ('a list \<times> nat)" where
  "random_sample rnd i population k =
     (if k < 0 \<or> int (length population) < k then Inl ValueError
      else Inr (sample_from rnd i population (nat k), i + nat k))"

definition random_shuffle :: "(nat \<Rightarrow> nat) \<Rightarrow> nat \<Rightarrow> 'a list \<Rightarrow> 'a list \<times> nat" where
  "random_shuffle rnd i xs = (sample_from rnd i xs (length xs), i + length xs)"

text \<open>The two placeholder strings; \<open>243\<close> is the letter o with an acute accent.\<close>

definition respuesta_no_disponible :: pystr where
  "respuesta_no_disponible = py ''Respuesta no disponible''"

definition opcion_incorrecta :: pystr where
  "opcion_incorrecta = py ''Opci'' @ [243] @ py ''n incorrecta''"

text \<open>
  \<open>_extract_answer_from_question\<close>. \<open>difflib.get_close_matches(question, sentences,
  n=1)\<close> belongs to the standard library and is a parameter. \<open>46\<close> is the full stop.
\<close>

definition extract_answer_from_question ::
  "(pystr \<Rightarrow> pystr list \<Rightarrow> pystr list) \<Rightarrow> pystr \<Rightarrow> pystr \<Rightarrow> pystr" where
  "extract_answer_from_question get_close_matches question context =
     (let sentences = filter (\<lambda>s. length s > 10) (map strip (split_on 46 context));
          best = get_close_matches question sentences
      in case best of
           b # _ \<Rightarrow> b
         | [] \<Rightarrow> (case sentences of s # _ \<Rightarrow> s | [] \<Rightarrow> respuesta_no_disponible))"

text \<open>
  \<open>_generate_distractors\<close>: a sample of \<open>min(n, len(sentences))\<close> sentences, or
  \<open>n\<close> placeholders when there is no sentence at all.
\<close>

definition generate_distractors ::
  "(nat \<Rightarrow> nat) \<Rightarrow> nat \<Rightarrow> pystr \<Rightarrow> pystr \<Rightarrow> int \<Rightarrow> py_error + (pystr list \<times> nat)" where
  "generate_distractors rnd i correct context n =
     (let sentences = filter (\<lambda>s. length s > 10 \<and> s \<noteq> correct) (map strip (split_on 46 context))
      in if sentences \<noteq> [] then random_sample rnd i sentences (min n (int (length sentences)))
         else Inr (replicate (nat n) opcion_incorrecta, i))"

text \<open>
  \<open>generate_multiple_choice_exam\<close>: the inner loop \<open>for q in questions\<close>, the outer
  loop over the chunks, and the function, which chunks the text with a
  \<open>PDFProcessor()\<close> of the default sizes 512 and 50.
\<close>

record exam_env =
  generator_of :: generator
  get_close_matches :: "pystr \<Rightarrow> pystr list \<Rightarrow> pystr list"
  rnd :: "nat \<Rightarrow> nat"

fun exam_questions ::
  "exam_env \<Rightarrow> int \<Rightarrow> int \<Rightarrow> pystr \<Rightarrow> question list
     \<Rightarrow> exam_item list \<times> pystr set \<times> nat \<Rightarrow> py_error + (exam_item list \<times> pystr set \<times> nat)" where
  "exam_questions E num_questions num_options chunk_text [] st = Inr st"
| "exam_questions E num_questions num_options chunk_text (q # qs) (exam, used_questions, i) =
     (let question_text = q_question q
      in if question_text \<in> used_questions
         then exam_questions E num_questions num_options chunk_text qs (exam, used_questions, i)
         else
           (let correct_answer =
                  extract_answer_from_question (get_close_matches E) question_text chunk_text
            in case generate_distractors (rnd E) i correct_answer chunk_text (num_options - 1) of
                 Inl e \<Rightarrow> Inl e
               | Inr (distractors, i1) \<Rightarrow>
                   (case random_shuffle (rnd E) i1 (distractors @ [correct_answer]) of
                      (options, i2) \<Rightarrow>
                        (let exam' = exam @ [\<lparr> item_question = question_text,
                                                item_options = options,
                                                item_answer = correct_answer \<rparr>];
                             used' = insert question_text used_questions
                         in if int (length exam') \<ge> num_questions then Inr (exam', used', i2)
                            else exam_questions E num_questions num_options chunk_text qs
                                   (exam', used', i2)))))"

fun exam_loop ::
  "exam_env \<Rightarrow> int \<Rightarrow> int \<Rightarrow> pystr list
     \<Rightarrow> exam_item list \<times> pystr set \<times> nat \<Rightarrow> py_error + (exam_item list \<times> pystr set \<times> nat)" where
  "exam_loop E num_questions num_options [] st = Inr st"
| "exam_loop E num_questions num_options (chunk_text # rest) (exam, used_questions, i) =
     (if int (length exam) < num_questions then
        (case generate_questions_from_text (generator_of E) chunk_text 1 of
           Inl e \<Rightarrow> Inl e
         | Inr questions \<Rightarrow>
            (case exam_questions E num_questions num_options chunk_text questions
                    (exam, used_questions, i) of
               Inl e \<Rightarrow> Inl e
             | Inr st \<Rightarrow> exam_loop E num_questions num_options rest st))
      else Inr (exam, used_questions, i))"

definition generate_multiple_choice_exam ::
  "psutil_env \<Rightarrow> exam_env \<Rightarrow> pystr \<Rightarrow> int \<Rightarrow> int \<Rightarrow> (py_error + exam_item list) option" where
  "generate_multiple_choice_exam env E text0 num_questions num_options =
     (case create_text_chunks env 512 50 text0 of
        None \<Rightarrow> None
      | Some (Inl e) \<Rightarrow> Some (Inl e)
      | Some (Inr chunks) \<Rightarrow>
          (case exam_loop E num_questions num_options chunks ([], {}, 0) of
             Inl e \<Rightarrow> Some (Inl e)
           | Inr (exam, used_questions, i) \<Rightarrow> Some (Inr exam)))"

text \<open>
  Inputs for the evaluations below: ASCII lower-casing, a pipeline that returns three
  Spanish questions for every prompt and one that returns a single question, and two
  texts.
\<close>

definition ascii_lower :: "pystr \<Rightarrow> pystr" where
  "ascii_lower s = map (\<lambda>c. if 65 \<le> c \<and> c \<le> 90 then c + 32 else c) s"

definition three_questions :: "pystr list" where
  "three_questions =
     [191 # py ''Que es el sol?'', 191 # py ''Donde esta el sol?'', 191 # py ''Como es el sol?'']"

definition gen3 :: generator where
  "gen3 = \<lparr> model_name = py ''mrm8488/t5-base-finetuned-question-generation-ap'',
            pipeline = Some (\<lambda>prompt. Inr three_questions),
            load_model = None,
            py_lower = ascii_lower,
            py_isupper = (\<lambda>c. 65 \<le> c \<and> c \<le> 90) \<rparr>"

definition sol_text :: pystr where
  "sol_text = py ''El sol es una estrella muy grande y caliente.''"

definition gen1 :: generator where
  "gen1 = \<lparr> model_name = py ''mrm8488/t5-base-finetuned-question-generation-ap'',
            pipeline = Some (\<lambda>prompt. Inr [191 # py ''Que es el sol?'']),
            load_model = None,
            py_lower = ascii_lower,
            py_isupper = (\<lambda>c. 65 \<le> c \<and> c \<le> 90) \<rparr>"

definition exam_env1 :: exam_env where
  "exam_env1 = \<lparr> generator_of = gen1, get_close_matches = (\<lambda>q ss. []), rnd = (\<lambda>i. 0) \<rparr>"

definition planet_text :: pystr where
  "planet_text =
     py ''El sol es una estrella muy grande y caliente. La luna gira alrededor. Marte es un planeta rojo.''"

text \<open>A machine whose reads all succeed, with system memory utilisation \<open>p\<close> percent.\<close>

definition env_at :: "real \<Rightarrow> psutil_env" where
  "env_at p = \<lparr> process_open = Inr (),
               virtual_memory = Inr \<lparr> vm_total = 4294967296, vm_available = 1073741824,
                                      vm_percent = p \<rparr>,
               memory_info_rss = Inr 104857600 \<rparr>"

section \<open>Properties of the Memory Monitor\<close>

lemma get_memory_usage_env_at:
  "get_memory_usage (env_at p) =
     Inr \<lparr> process_memory_mb = 100, system_memory_percent = p,
           system_available_mb = 1024, system_total_mb = 4096 \<rparr>"
  by (simp add: get_memory_usage_def env_at_def)

lemma get_optimal_chunk_size_env_at:
  "get_optimal_chunk_size (env_at p) n base = Inr (if p > 80 then base div 2 else base)"
  by (simp add: get_optimal_chunk_size_def get_memory_usage_env_at)

text \<open>
  C1. The claim asks for the base size quartered above 90 percent utilisation. The code
  tests \<open>> 80\<close> before \<open>> 90\<close>, so the quartering branch is never taken: at 95 percent
  a base of 512 gives 256, not 128.
\<close>

theorem get_optimal_chunk_size_at_95:
  "get_optimal_chunk_size (env_at 95) 1000 512 = Inr 256"
  by (simp add: get_optimal_chunk_size_env_at)

text \<open>
  C8, as the claim states it, fails: when \<open>psutil.Process()\<close> raises, the error is the
  result, and it is not the zeroed snapshot.
\<close>

theorem get_memory_usage_propagates_counterexample:
  "get_memory_usage \<lparr> process_open = Inl AccessDenied,
                      virtual_memory = Inr \<lparr> vm_total = 4294967296,
                                             vm_available = 1073741824, vm_percent = 50 \<rparr>,
                      memory_info_rss = Inr 104857600 \<rparr> = Inl AccessDenied
   \<and> get_memory_usage \<lparr> process_open = Inl AccessDenied,
                      virtual_memory = Inr \<lparr> vm_total = 4294967296,
                                             vm_available = 1073741824, vm_percent = 50 \<rparr>,
                      memory_info_rss = Inr 104857600 \<rparr> \<noteq> Inr zeroed_usage"
  by (simp add: get_memory_usage_def)

text \<open>
  C8, amended. \<open>get_memory_usage\<close> has no error handling: it returns a snapshot exactly
  when the three reads succeed, and the snapshot is then computed from the readings;
  otherwise the error of the first failing read is the result.
\<close>

theorem get_memory_usage_result:
  "get_memory_usage env =
     (if isl (process_open env) then Inl (projl (process_open env))
      else if isl (virtual_memory env) then Inl (projl (virtual_memory env))
      else if isl (memory_info_rss env) then Inl (projl (memory_info_rss env))
      else Inr \<lparr> process_memory_mb = real (projr (memory_info_rss env)) / 1024 / 1024,
                 system_memory_percent = vm_percent (projr (virtual_memory env)),
                 system_available_mb =
                   real (vm_available (projr (virtual_memory env))) / 1024 / 1024,
                 system_total_mb = real (vm_total (projr (virtual_memory env))) / 1024 / 1024 \<rparr>)"
  by (simp add: get_memory_usage_def split: sum.splits)

section \<open>Properties of page cleaning\<close>





section \<open>Properties of grading\<close>

lemma grade_loop_eq:
  "grade_loop ps c ds =
     (c + length (filter (\<lambda>(q, a). a = item_answer q) ps),
      ds @ map (\<lambda>(q, a). \<lparr> det_question = item_question q, det_selected = a,
                          det_correct_answer = item_answer q,
                          det_is_correct = (a = item_answer q) \<rparr>) ps)"
  by (induction ps c ds rule: grade_loop.induct) (simp_all add: Let_def)

lemma length_filter_zip_card:
  "length (filter (\<lambda>(q, a). a = item_answer q) (zip exam answers)) =
     card {i. i < length exam \<and> i < length answers \<and> answers ! i = item_answer (exam ! i)}"
proof -
  have "{i. i < length (zip exam answers)
            \<and> (case zip exam answers ! i of (q, a) \<Rightarrow> a = item_answer q)}
      = {i. i < length exam \<and> i < length answers \<and> answers ! i = item_answer (exam ! i)}"
    by auto
  then show ?thesis by (simp add: length_filter_conv_card)
qed



text \<open>
  C10. With fewer answers than items, \<open>zip\<close> stops at the shorter list: the details
  are those of the first \<open>len(user_answers)\<close> items, \<open>correct\<close> counts the matches
  among them only, \<open>total\<close> is still the number of items, and the score is computed
  over all items.
\<close>

theorem grade_fewer_answers:
  assumes "length user_answers < length exam"
  shows "length (res_details (grade_multiple_choice_exam exam user_answers))
           = length user_answers
       \<and> map det_question (res_details (grade_multiple_choice_exam exam user_answers)) =
           map item_question (take (length user_answers) exam)
       \<and> res_correct (grade_multiple_choice_exam exam user_answers) =
           card {i. i < length user_answers \<and> user_answers ! i = item_answer (exam ! i)}
       \<and> res_correct (grade_multiple_choice_exam exam user_answers) \<le> length user_answers
       \<and> res_total (grade_multiple_choice_exam exam user_answers) = length exam
       \<and> res_score (grade_multiple_choice_exam exam user_answers) =
           real (res_correct (grade_multiple_choice_exam exam user_answers))
             / real (length exam) * 100"
proof -
  have e: "{i. i < length exam \<and> i < length user_answers
               \<and> user_answers ! i = item_answer (exam ! i)}
      = {i. i < length user_answers \<and> user_answers ! i = item_answer (exam ! i)}"
    using assms by auto
  have le: "length (filter (\<lambda>(q, a). a = item_answer q) (zip exam user_answers))
              \<le> length user_answers"
    by (rule order_trans [OF length_filter_le]) simp
  have m: "map (det_question \<circ> (\<lambda>(q, a). \<lparr> det_question = item_question q, det_selected = a,
                          det_correct_answer = item_answer q,
                          det_is_correct = (a = item_answer q) \<rparr>)) (zip exam user_answers)
          = map item_question (take (length user_answers) exam)"
  proof -
    have "map (\<lambda>x. item_question (fst x)) (zip exam user_answers)
        = map item_question (map fst (zip exam user_answers))"
      by (simp add: comp_def)
    also have "\<dots> = map item_question (take (length user_answers) exam)"
      using assms by (simp only: map_fst_zip_take) (simp add: min_def)
    finally show ?thesis by (simp add: comp_def case_prod_unfold)
  qed
  show ?thesis using assms le e m
    by (simp add: grade_multiple_choice_exam_def grade_loop_eq Let_def
          length_filter_zip_card min_def)
qed

theorem grade_fewer_answers_witness:
  "length [py ''a''] < length ex_exam
   \<and> length (res_details (grade_multiple_choice_exam ex_exam [py ''a''])) = 1
   \<and> res_correct (grade_multiple_choice_exam ex_exam [py ''a'']) = 1
   \<and> res_total (grade_multiple_choice_exam ex_exam [py ''a'']) = 2
   \<and> res_score (grade_multiple_choice_exam ex_exam [py ''a'']) = 50"
proof -
  have h: "length [py ''a''] < length ex_exam"
    by (simp add: ex_exam_def)
  have k: "{i. i < length [py ''a''] \<and> [py ''a''] ! i = item_answer (ex_exam ! i)} = {0}"
    by (auto simp: ex_exam_def)
  show ?thesis
    using grade_fewer_answers [OF h] unfolding k by (simp add: ex_exam_def)
qed

section \<open>Properties of chunking\<close>

text \<open>A text of 12 characters: its only window is computed and not yielded.\<close>

lemma create_text_chunks_short_text:
  "create_text_chunks (env_at 50) 512 50 (py ''uno dos tres'') = Some (Inr [])"
  by (simp add: create_text_chunks_def get_optimal_chunk_size_env_at chunk_loop.simps is_space_def py_slice_def strip_def)

text \<open>
  When the window is not larger than the overlap and does not reach the end of the word
  list, the start index never moves forward and the loop does not return.
\<close>

lemma chunk_loop_diverges_aux:
  assumes "chunk_loop S ov words s = Some y"
  shows "\<not> (S \<le> ov \<and> S < int (length words) \<and> 0 < length words \<and> s \<le> 0)"
proof (rule chunk_loop.raw_induct
    [where P = "\<lambda>S ov words s y. \<not> (S \<le> ov \<and> S < int (length words) \<and> 0 < length words \<and> s \<le> 0)",
     OF _ assms])
  fix f :: "int \<Rightarrow> int \<Rightarrow> pystr list \<Rightarrow> int \<Rightarrow> window list option"
    and S ov :: int and words :: "pystr list" and s :: int and y :: "window list"
  assume ih: "\<And>S ov words s y. f S ov words s = Some y \<Longrightarrow>
                \<not> (S \<le> ov \<and> S < int (length words) \<and> 0 < length words \<and> s \<le> 0)"
    and step: "(if s < int (length words) then
        (let end_idx = min (s + S) (int (length words));
             chunk_text = py_join [32] (py_slice words s end_idx);
             w = \<lparr> w_start = s, w_end = end_idx, w_text = chunk_text,
                   w_yielded = (length (strip chunk_text) > 50) \<rparr>
         in if end_idx \<ge> int (length words) then Some [w]
            else do { rest \<leftarrow> f S ov words (end_idx - ov);
                      Some (w # rest) })
      else Some []) = Some y"
  show "\<not> (S \<le> ov \<and> S < int (length words) \<and> 0 < length words \<and> s \<le> 0)"
  proof
    assume a: "S \<le> ov \<and> S < int (length words) \<and> 0 < length words \<and> s \<le> 0"
    then have lt: "s < int (length words)" by linarith
    from a have e: "min (s + S) (int (length words)) = s + S" by linarith
    from a have nb: "\<not> s + S \<ge> int (length words)" by linarith
    from step lt e nb obtain rest where "f S ov words (s + S - ov) = Some rest"
      by (auto simp: Let_def split: bind_splits)
    from ih [OF this] a show False by linarith
  qed
qed

lemma chunk_loop_diverges:
  assumes "S \<le> ov" "S < int (length words)" "0 < length words" "s \<le> 0"
  shows "chunk_loop S ov words s = None"
  using chunk_loop_diverges_aux [of S ov words s] assms
  by (cases "chunk_loop S ov words s") auto

text \<open>When the window is larger than the overlap the loop returns, from any start.\<close>

lemma chunk_loop_terminates:
  assumes "ov < S"
  shows "\<exists>ws. chunk_loop S ov words s = Some ws"
proof (induction "nat (int (length words) - s)" arbitrary: s rule: less_induct)
  case less
  show ?case
  proof (cases "s < int (length words)")
    case False
    then show ?thesis by (subst chunk_loop.simps) simp
  next
    case True
    show ?thesis
    proof (cases "int (length words) \<le> s + S")
      case True
      with \<open>s < int (length words)\<close> show ?thesis
        by (subst chunk_loop.simps) (simp add: Let_def)
    next
      case False
      with True assms have "nat (int (length words) - (s + S - ov)) < nat (int (length words) - s)"
        by linarith
      from less [OF this] obtain rest where "chunk_loop S ov words (s + S - ov) = Some rest"
        by blast
      with True False show ?thesis
        by (subst chunk_loop.simps) (simp add: Let_def min_def)
    qed
  qed
qed






lemma chunk_loop_returns_iff:
  "(\<exists>ws. chunk_loop S ov words 0 = Some ws) \<longleftrightarrow>
     (words = [] \<or> int (length words) \<le> S \<or> ov < S)"
proof (cases "ov < S")
  case True
  then show ?thesis using chunk_loop_terminates [of ov S words 0] by simp
next
  case False
  show ?thesis
  proof (cases "words = [] \<or> int (length words) \<le> S")
    case True
    then show ?thesis by (subst chunk_loop.simps) (auto simp: Let_def)
  next
    case f: False
    with False have "chunk_loop S ov words 0 = None"
      by (intro chunk_loop_diverges) auto
    with f False show ?thesis by simp
  qed
qed



text \<open>
  C5. The claim asks that chunking terminates also when the recommended window size is
  not larger than the overlap. With \<open>chunk_size = 4\<close> and \<open>overlap = 2\<close> at 85 percent
  utilisation the recommended size is 2, and on a text of three words the loop never
  returns.
\<close>

theorem create_text_chunks_never_returns:
  "get_optimal_chunk_size (env_at 85) 12 4 = Inr 2
   \<and> create_text_chunks (env_at 85) 4 2 (py ''uno dos tres'') = None"
proof -
  have w: "py_split (py ''uno dos tres'') = [py ''uno'', py ''dos'', py ''tres'']"
    by (simp add: is_space_def)
  have "chunk_loop 2 2 [py ''uno'', py ''dos'', py ''tres''] 0 = None"
    by (rule chunk_loop_diverges) simp_all
  with w show ?thesis
    by (simp add: create_text_chunks_def get_optimal_chunk_size_env_at)
qed

section \<open>Properties of streaming\<close>

lemma stream_loop_cleanups:
  "cleanup_positions k (stream_loop md i chunks) =
     map (\<lambda>j. Suc (k + (j - i))) (filter (\<lambda>j. j mod 5 = 0) [i..<i + length chunks])"
proof (induction chunks arbitrary: i k)
  case Nil
  then show ?case by simp
next
  case (Cons c cs)
  have u: "[i..<i + length (c # cs)] = i # [Suc i..<Suc i + length cs]"
  proof -
    have "i < i + length (c # cs)" by simp
    from upt_conv_Cons [OF this] show ?thesis
      by (simp only: length_Cons add_Suc_right add_Suc)
  qed
  have m: "map (\<lambda>j. Suc (Suc k + (j - Suc i))) (filter (\<lambda>j. j mod 5 = 0) [Suc i..<Suc i + length cs])
         = map (\<lambda>j. Suc (k + (j - i))) (filter (\<lambda>j. j mod 5 = 0) [Suc i..<Suc i + length cs])"
    by (rule map_cong) auto
  show ?case
    unfolding u using Cons [of "Suc k" "Suc i"] m by simp
qed

lemma stream_loop_ids: "yielded_ids (stream_loop md i chunks) = [i..<i + length chunks]"
proof (induction chunks arbitrary: i)
  case Nil
  then show ?case by simp
next
  case (Cons c cs)
  have u: "[i..<i + length (c # cs)] = i # [Suc i..<Suc i + length cs]"
  proof -
    have "i < i + length (c # cs)" by simp
    from upt_conv_Cons [OF this] show ?thesis
      by (simp only: length_Cons add_Suc_right add_Suc)
  qed
  show ?case unfolding u using Cons [of "Suc i"] by simp
qed

text \<open>
  C7, as the claim states it, fails: for a document of five chunks the only reclaim is
  after the first record; there is none after the fifth.
\<close>

theorem stream_cleanup_counterexample:
  "cleanup_positions 0 (stream_loop () 0 [py ''a'', py ''b'', py ''c'', py ''d'', py ''e'']) = [1]
   \<and> cleanup_positions 0 (stream_loop () 0 [py ''a'', py ''b'', py ''c'', py ''d'', py ''e''])
       \<noteq> [5]"
  by simp

text \<open>
  C7, amended. The records carry the chunk ids \<open>0, 1, 2, ...\<close> in order, and the
  non-forced reclaim is invoked after exactly the records whose chunk id is a multiple
  of 5, that is after records 1, 6, 11, ...
\<close>

theorem stream_cleanup_after_ids_multiple_of_5:
  "yielded_ids (stream_loop md 0 chunks) = [0..<length chunks]
   \<and> cleanup_positions 0 (stream_loop md 0 chunks) =
       map Suc (filter (\<lambda>i. i mod 5 = 0) [0..<length chunks])"
  using stream_loop_cleanups [of 0 md 0 chunks] stream_loop_ids [of md 0 chunks] by simp

section \<open>Properties of question generation\<close>

lemma re_split_sentences_sol_text: "re_split_sentences sol_text = [sol_text]"
  by (simp add: sol_text_def is_space_def)

text \<open>
  C3. The claim asks for at most \<open>n\<close> questions. The count is tested once per
  sentence, before the pipeline is called, and every valid string the pipeline returns
  for that sentence is appended: with one sentence, \<open>n = 1\<close> and three valid strings,
  three questions are returned.
\<close>

theorem generate_questions_exceeds_requested:
  "generate_questions_from_text gen3 sol_text 1 =
   Inr (map (\<lambda>q. \<lparr> q_question = q, q_type = py ''QG'', q_model = model_name gen3 \<rparr>) three_questions)"
  by (simp add: generate_questions_from_text_def re_split_sentences_sol_text)
     (simp add: gen3_def sol_text_def three_questions_def strip_def is_space_def
        valid_question_def startswith_def ascii_lower_def Let_def)

section \<open>Properties of the exam builder\<close>

lemma length_sample_from: "length (sample_from r i pool k) = min k (length pool)"
proof (induction k arbitrary: i pool)
  case 0
  then show ?case by simp
next
  case (Suc k)
  show ?case
  proof (cases "pool = []")
    case True
    then show ?thesis by simp
  next
    case False
    then have "r i mod length pool < length pool" by simp
    then have "length (take (r i mod length pool) pool @ drop (Suc (r i mod length pool)) pool)
                 = length pool - 1"
      by simp
    with False Suc show ?thesis by (simp add: Let_def) (cases pool; simp)
  qed
qed

lemma generate_distractors_length:
  "generate_distractors r i correct context n = Inr (ds, i') \<Longrightarrow>
     int (length ds) =
       (let sentences = filter (\<lambda>s. length s > 10 \<and> s \<noteq> correct) (map strip (split_on 46 context))
        in if sentences = [] then max 0 n else min n (int (length sentences)))"
  by (auto simp: generate_distractors_def random_sample_def length_sample_from Let_def
      split: if_splits)

lemma create_text_chunks_planet_text:
  "create_text_chunks (env_at 50) 512 50 planet_text = Some (Inr [planet_text])"
  by (simp add: create_text_chunks_def get_optimal_chunk_size_env_at chunk_loop.simps
        planet_text_def is_space_def py_slice_def strip_def)

lemma sentences_planet_text:
  "map strip (split_on 46 planet_text) =
   [py ''El sol es una estrella muy grande y caliente'', py ''La luna gira alrededor'',
    py ''Marte es un planeta rojo'', []]"
  by (simp add: planet_text_def strip_def is_space_def)

lemma generate_questions_planet_text:
  "generate_questions_from_text gen1 planet_text 1 =
   Inr [\<lparr> q_question = 191 # py ''Que es el sol?'', q_type = py ''QG'', q_model = model_name gen1 \<rparr>]"
  by (simp add: generate_questions_from_text_def)
     (simp add: gen1_def planet_text_def strip_def is_space_def
        valid_question_def startswith_def ascii_lower_def Let_def)

text \<open>
  C2. The claim asks for exactly \<open>numOptions\<close> options, with placeholders for the
  missing distractors. Placeholders are produced only when the chunk has no usable
  sentence at all: for a chunk with two usable sentences besides the correct answer and
  four options requested, the item has three options.
\<close>

theorem exam_item_has_three_options:
  "generate_multiple_choice_exam (env_at 50) exam_env1 planet_text 1 4 =
   Some (Inr [\<lparr> item_question = 191 # py ''Que es el sol?'',
                item_options = [py ''La luna gira alrededor'', py ''Marte es un planeta rojo'',
                                py ''El sol es una estrella muy grande y caliente''],
                item_answer = py ''El sol es una estrella muy grande y caliente'' \<rparr>])"
  by (simp add: generate_multiple_choice_exam_def create_text_chunks_planet_text exam_env1_def generate_questions_planet_text
        extract_answer_from_question_def generate_distractors_def sentences_planet_text
        random_sample_def random_shuffle_def Let_def numeral_3_eq_3 numeral_2_eq_2)

end
